theory Spec2Isabelle
  imports Main "HOL-Library.Word"
begin

section \<open>JavaScript strings\<close>

text \<open>
  A JavaScript string is a sequence of UTF-16 code units. \<open>str\<close> embeds an ASCII
  literal of the source.
\<close>

type_synonym js_string = "16 word list"

definition str :: "string \<Rightarrow> js_string" where
  "str s = map of_char s"

text \<open>
  \<open>String.prototype.trim\<close> removes the ECMAScript WhiteSpace and LineTerminator code
  points from both ends; all of them are single code units.
\<close>

definition isWhiteSpace :: "16 word \<Rightarrow> bool" where
  "isWhiteSpace c =
     (c \<in> {0x0009, 0x000A, 0x000B, 0x000C, 0x000D, 0x0020, 0x00A0, 0x1680,
            0x2028, 0x2029, 0x202F, 0x205F, 0x3000, 0xFEFF}
      \<or> (0x2000 \<le> c \<and> c \<le> 0x200A))"

definition trim :: "js_string \<Rightarrow> js_string" where
  "trim s = rev (dropWhile isWhiteSpace (rev (dropWhile isWhiteSpace s)))"

text \<open>\<open>s.includes(p)\<close>: \<open>p\<close> occurs in \<open>s\<close> as a contiguous run of code units.\<close>

fun js_includes :: "js_string \<Rightarrow> js_string \<Rightarrow> bool" where
  "js_includes [] p = (p = [])"
| "js_includes (c # cs) p = (take (length p) (c # cs) = p \<or> js_includes cs p)"

text \<open>\<open>a || b\<close> on an optional string: \<open>undefined\<close> and the empty string are falsy.\<close>

definition or_else :: "js_string option \<Rightarrow> js_string \<Rightarrow> js_string" where
  "or_else a b = (case a of None \<Rightarrow> b | Some x \<Rightarrow> if x = [] then b else x)"


section \<open>The API client (lib/api.ts)\<close>

text \<open>
  A JavaScript call completes normally with a value or abruptly with a thrown value.
  The thrown values of this program are \<open>ApiError\<close> (status, message), any other
  \<open>Error\<close> (only its message is read) and, from a callback, a value that is no \<open>Error\<close>.
\<close>

datatype exn = ApiError nat js_string | JsError js_string | NonError

datatype 'a completion = Returns 'a | Throws exn

text \<open>
  A value read from a JSON body where the client reads it as a string: a string, or any
  other value, of which only the truthiness and the string conversion matter
  (\<open>[]\<close> is truthy and converts to the empty string, \<open>0\<close> is falsy).
\<close>

datatype js_value = JsString js_string | JsOther bool js_string

text \<open>
  \<open>a || \<dots>\<close> with the result converted to a string, as the \<open>Error\<close> constructor
  does with its message: the conversion of \<open>a\<close> when \<open>a\<close> is truthy. An absent
  property is \<open>undefined\<close>.
\<close>

fun truthy_text :: "js_value option \<Rightarrow> js_string option" where
  "truthy_text None = None"
| "truthy_text (Some (JsString x)) = (if x = [] then None else Some x)"
| "truthy_text (Some (JsOther t x)) = (if t then Some x else None)"

text \<open>
  The JSON body of a response that is not ok, when it is not \<open>null\<close>: only its
  properties \<open>detail\<close> and \<open>error\<close> are read. A body that is a number, a string, a
  boolean or an array has neither, like the empty object.
\<close>

record error_body =
  detail :: "js_value option"
  error :: "js_value option"

text \<open>
  What \<open>fetch\<close> and \<open>response.json()\<close> can do in \<open>ApiClient.request\<close>: \<open>fetch\<close>
  rejects; the response is ok and \<open>json()\<close> rejects (\<open>Inl\<close>) or yields the body, taken
  to have the type the client declares; the response is not ok, with its status and its
  parsed body (\<open>None\<close> when \<open>json()\<close> rejects); the response is not ok and its body is
  \<open>null\<close>, so that reading \<open>error.detail\<close> throws the engine's \<open>TypeError\<close>, whose
  message is given.
\<close>

datatype 'a fetch_result =
    FetchRejected js_string
  | OkResponse "js_string + 'a"
  | ErrResponse nat "error_body option"
  | ErrResponseNull nat js_string

text \<open>\<open>error.detail || error.error || "Request failed"\<close>, as the message of the \<open>ApiError\<close>.\<close>

definition error_text :: "error_body option \<Rightarrow> js_string" where
  "error_text b =
     (let e = (case b of None \<Rightarrow> \<lparr>detail = None,
                                   error = Some (JsString (str ''Unknown error''))\<rparr>
                       | Some e \<Rightarrow> e)
      in case truthy_text (detail e) of
           Some m \<Rightarrow> m
         | None \<Rightarrow> (case truthy_text (error e) of
                      Some m \<Rightarrow> m
                    | None \<Rightarrow> str ''Request failed''))"

fun request :: "'a fetch_result \<Rightarrow> 'a completion" where
  "request (FetchRejected m) = Throws (JsError m)"
| "request (ErrResponse st b) = Throws (ApiError st (error_text b))"
| "request (ErrResponseNull st m) = Throws (JsError m)"
| "request (OkResponse (Inl m)) = Throws (JsError m)"
| "request (OkResponse (Inr v)) = Returns v"

text \<open>\<open>err instanceof Error ? err.message : "Unknown error"\<close>\<close>

fun err_message :: "exn \<Rightarrow> js_string" where
  "err_message (ApiError st m) = m"
| "err_message (JsError m) = m"
| "err_message NonError = str ''Unknown error''"

record SecretAlert =
  alert_type :: js_string
  severity :: js_string
  line :: int
  alert_message :: js_string
  preview :: js_string

record ScanResponse =
  is_safe :: bool
  secrets_found :: int
  alerts :: "SecretAlert list"

record SyntaxValidateResponse =
  is_valid :: bool
  error_message :: "js_string option"
  error_line :: "int option"
  error_column :: "int option"

record CommitRequest =
  cr_repo_full_name :: js_string
  cr_file_path :: js_string
  cr_content :: js_string
  cr_commit_message :: js_string
  cr_branch :: "js_string option"
  cr_expected_sha :: "js_string option"

record CommitResponse =
  success :: bool
  commit_sha :: "js_string option"
  file_sha :: "js_string option"
  message :: js_string

record diff_info =
  original_start :: int
  original_end :: int
  original_source :: js_string

record SmartReplaceRequest =
  sr_file_path :: js_string
  sr_full_file_content :: js_string
  sr_new_snippet :: js_string
  sr_language :: "js_string option"

record SmartReplaceResponse =
  sr_success :: bool
  updated_content :: js_string
  operation :: js_string
  target_name :: "js_string option"
  sr_message :: js_string
  sr_diff_info :: "diff_info option"

text \<open>The requests the editor sends, with the arguments of the client method.\<close>

datatype api_call =
    ScanSecrets js_string js_string
  | ValidateSyntax js_string js_string js_string
  | CommitFile CommitRequest
  | SmartReplace SmartReplaceRequest


section \<open>The editor (components/SmartEditor.tsx)\<close>

text \<open>
  The props of the component; \<open>language\<close> stands for \<open>getMonacoLanguage(filePath)\<close>,
  and \<open>onSaveSuccess\<close> for how the optional callback completes when called.
\<close>

record props =
  owner :: js_string
  repo :: js_string
  filePath :: js_string
  branch :: "js_string option"
  accessToken :: js_string
  language :: js_string
  onSaveSuccess :: "unit completion option"

text \<open>The \<open>useState\<close> cells of the component and the browser's \<open>localStorage\<close>.\<close>

record editor =
  content :: js_string
  originalContent :: js_string
  sha :: js_string
  isSaving :: bool
  hasUnsavedChanges :: bool
  showMagicPaste :: bool
  magicPasteCode :: js_string
  magicPasteResult :: "SmartReplaceResponse option"
  isProcessingMagic :: bool
  hasLocalBackup :: bool
  localStorage :: "js_string \<rightharpoonup> js_string"

datatype toast =
    ToastScanning
  | ToastSecretsDetected int
  | ToastValidating
  | ToastSyntaxError "int option" "js_string option"
  | ToastPushing
  | ToastPushSuccessful "js_string option"
  | ToastMergeConflict
  | ToastPushFailed js_string
  | ToastPasteFirst
  | ToastSmartReplaceFailed js_string
  | ToastSuccess js_string

text \<open>
  What one run of a handler leaves behind: the state after its updates, the requests
  it sent and the toasts it showed, both in order, and whether it called
  \<open>onSaveSuccess\<close>.
\<close>

record run =
  final :: editor
  calls :: "api_call list"
  toasts :: "toast list"
  notified :: bool

definition getBackupKey :: "js_string \<Rightarrow> js_string \<Rightarrow> js_string" where
  "getBackupKey r path =
     str ''gitflow_backup_'' @ r @ str ''_''
       @ map (\<lambda>c. if c = of_char CHR ''/'' then of_char CHR ''_'' else c) path"

definition backupKey :: "props \<Rightarrow> js_string" where
  "backupKey p = getBackupKey (owner p @ str ''/'' @ repo p) (filePath p)"

text \<open>The backend's answers to the three requests of one Safe Push attempt.\<close>

record replies =
  scanReply :: "ScanResponse fetch_result"
  syntaxReply :: "SyntaxValidateResponse fetch_result"
  commitReply :: "CommitResponse fetch_result"

definition scanCall :: "props \<Rightarrow> editor \<Rightarrow> api_call" where
  "scanCall p s = ScanSecrets (content s) (filePath p)"

definition syntaxCall :: "props \<Rightarrow> editor \<Rightarrow> api_call" where
  "syntaxCall p s = ValidateSyntax (content s) (language p) (filePath p)"

definition commitCall :: "props \<Rightarrow> editor \<Rightarrow> api_call" where
  "commitCall p s = CommitFile
     \<lparr>cr_repo_full_name = owner p @ str ''/'' @ repo p,
      cr_file_path = filePath p,
      cr_content = content s,
      cr_commit_message = str ''Update '' @ filePath p @ str '' via GitFlow-CMS'',
      cr_branch = branch p,
      cr_expected_sha = Some (sha s)\<rparr>"

text \<open>The \<open>catch\<close> block of \<open>handleSafePush\<close>.\<close>

definition pushCatch :: "exn \<Rightarrow> toast" where
  "pushCatch e =
     (let m = err_message e
      in if js_includes m (str ''Conflict'') \<or> js_includes m (str ''409'')
         then ToastMergeConflict else ToastPushFailed m)"

text \<open>
  The branch \<open>if (commitResult.success)\<close>, up to the end of the handler.
  \<open>storage.remove\<close> deletes the backup's key from \<open>localStorage\<close>.
\<close>

definition pushCommitted ::
  "props \<Rightarrow> editor \<Rightarrow> api_call list \<Rightarrow> toast list \<Rightarrow> CommitResponse \<Rightarrow> run" where
  "pushCommitted p s cs ts r =
     (let s' = s\<lparr>sha := or_else (file_sha r) (sha s),
                 originalContent := content s,
                 hasUnsavedChanges := False,
                 localStorage := (localStorage s)(backupKey p := None),
                 isSaving := False\<rparr>;
          ts' = ts @ [ToastPushSuccessful (map_option (take 7) (commit_sha r))]
      in case onSaveSuccess p of
           None \<Rightarrow> \<lparr>final = s', calls = cs, toasts = ts', notified = False\<rparr>
         | Some (Returns u) \<Rightarrow> \<lparr>final = s', calls = cs, toasts = ts', notified = True\<rparr>
         | Some (Throws e) \<Rightarrow>
             \<lparr>final = s', calls = cs, toasts = ts' @ [pushCatch e], notified = True\<rparr>)"

text \<open>
  \<open>handleSafePush\<close>: \<open>stop\<close> is a \<open>return\<close> or the end of the \<open>try\<close> block without
  a state update, \<open>fail\<close> the \<open>catch\<close> block; both run \<open>finally\<close>.
\<close>

definition handleSafePush :: "props \<Rightarrow> replies \<Rightarrow> editor \<Rightarrow> run" where
  "handleSafePush p env s =
     (let stop = (\<lambda>cs ts. \<lparr>final = s\<lparr>isSaving := False\<rparr>, calls = cs, toasts = ts,
                            notified = False\<rparr>);
          fail = (\<lambda>cs ts e. stop cs (ts @ [pushCatch e]));
          c1 = [scanCall p s];
          c2 = c1 @ [syntaxCall p s];
          c3 = c2 @ [commitCall p s];
          t1 = [ToastScanning];
          t2 = t1 @ [ToastValidating];
          t3 = t2 @ [ToastPushing]
      in case request (scanReply env) of
           Throws e \<Rightarrow> fail c1 t1 e
         | Returns scanResult \<Rightarrow>
             if \<not> is_safe scanResult
             then stop c1 (t1 @ [ToastSecretsDetected (secrets_found scanResult)])
             else (case request (syntaxReply env) of
                     Throws e \<Rightarrow> fail c2 t2 e
                   | Returns syntaxResult \<Rightarrow>
                       if \<not> is_valid syntaxResult
                       then stop c2 (t2 @ [ToastSyntaxError (error_line syntaxResult)
                                                            (error_message syntaxResult)])
                       else (case request (commitReply env) of
                               Throws e \<Rightarrow> fail c3 t3 e
                             | Returns commitResult \<Rightarrow>
                                 if success commitResult
                                 then pushCommitted p s c3 t3 commitResult
                                 else stop c3 t3)))"

text \<open>
  The "Apply Magic" button: \<open>disabled={!magicPasteCode.trim() || isProcessingMagic}\<close>.
\<close>

definition applyMagicDisabled :: "editor \<Rightarrow> bool" where
  "applyMagicDisabled s = (trim (magicPasteCode s) = [] \<or> isProcessingMagic s)"

definition smartReplaceCall :: "props \<Rightarrow> editor \<Rightarrow> api_call" where
  "smartReplaceCall p s = SmartReplace
     \<lparr>sr_file_path = filePath p,
      sr_full_file_content = content s,
      sr_new_snippet = magicPasteCode s,
      sr_language = Some (language p)\<rparr>"

definition handleMagicPaste :: "props \<Rightarrow> SmartReplaceResponse fetch_result \<Rightarrow> editor \<Rightarrow> run" where
  "handleMagicPaste p reply s =
     (if trim (magicPasteCode s) = []
      then \<lparr>final = s, calls = [], toasts = [ToastPasteFirst], notified = False\<rparr>
      else (case request reply of
              Returns result \<Rightarrow>
                \<lparr>final = s\<lparr>magicPasteResult := Some result, isProcessingMagic := False\<rparr>,
                 calls = [smartReplaceCall p s], toasts = [], notified = False\<rparr>
            | Throws e \<Rightarrow>
                \<lparr>final = s\<lparr>isProcessingMagic := False\<rparr>,
                 calls = [smartReplaceCall p s],
                 toasts = [ToastSmartReplaceFailed (err_message e)], notified = False\<rparr>))"

definition acceptMagicPaste :: "editor \<Rightarrow> run" where
  "acceptMagicPaste s =
     (case magicPasteResult s of
        None \<Rightarrow> \<lparr>final = s, calls = [], toasts = [], notified = False\<rparr>
      | Some r \<Rightarrow>
          \<lparr>final = s\<lparr>content := updated_content r,
                      hasUnsavedChanges := True,
                      showMagicPaste := False,
                      magicPasteCode := [],
                      magicPasteResult := None\<rparr>,
           calls = [], toasts = [ToastSuccess (sr_message r)], notified = False\<rparr>)"

definition rejectMagicPaste :: "editor \<Rightarrow> run" where
  "rejectMagicPaste s =
     \<lparr>final = s\<lparr>magicPasteResult := None\<rparr>, calls = [], toasts = [], notified = False\<rparr>"


section \<open>The smart-replace engine\<close>

text \<open>
  Modelled from the spec: the data model of section 3. The planner and the patch
  applier belong to the backend (\<open>backend/smart_logic.py\<close>), behind the
  \<open>/api/smart/replace\<close> endpoint that the editor calls. Texts are byte strings and
  spans are half-open ranges of offsets into the original text.
\<close>

datatype construct_kind = Function | Method | Class

record SourceSpan =
  start_offset :: nat
  end_offset :: nat
  start_line :: nat
  end_line :: nat

record Construct =
  name :: string
  kind :: construct_kind
  span :: SourceSpan
  indent_prefix :: string

record Fragment =
  raw_text :: string
  declared_name :: "string option"
  fragment_kind :: "construct_kind option"

datatype plan_operation = Replace | Append

record ReplacementPlan =
  plan_operation :: plan_operation
  target_span :: "SourceSpan option"
  plan_target_name :: "string option"

record PatchResult =
  patch_content :: string
  patch_operation :: plan_operation
  patch_target_name :: "string option"
  original_excerpt :: "string option"

text \<open>
  Modelled from the spec: the constructs of the file that section 4.3 matches against
  the fragment, those of its declared name and kind, in file order.
\<close>

definition matches :: "Construct list \<Rightarrow> string \<Rightarrow> construct_kind option \<Rightarrow> Construct list" where
  "matches file_constructs n k = filter (\<lambda>c. name c = n \<and> Some (kind c) = k) file_constructs"

text \<open>
  Modelled from the spec: the Replacement Planner \<open>plan(file_constructs, fragment)\<close>
  of section 4.3. No declared name, or no construct of the same name and kind, gives
  Append; one match or more gives Replace on the span of the last match.
\<close>

definition plan :: "Construct list \<Rightarrow> Fragment \<Rightarrow> ReplacementPlan" where
  "plan file_constructs fragment =
     (let append = \<lparr>plan_operation = Append, target_span = None, plan_target_name = None\<rparr>
      in case declared_name fragment of
           None \<Rightarrow> append
         | Some n \<Rightarrow>
             (case matches file_constructs n (fragment_kind fragment) of
                [] \<Rightarrow> append
              | m # ms \<Rightarrow> \<lparr>plan_operation = Replace,
                           target_span = Some (span (last (m # ms))),
                           plan_target_name = Some n\<rparr>))"

text \<open>
  Modelled from the spec: the white space and the line structure that the
  re-indentation rule of section 4.4 speaks of. White space is ASCII white space, lines
  end at a line feed.
\<close>

definition is_space :: "char \<Rightarrow> bool" where
  "is_space c = (c \<in> {CHR '' '', CHR 0x09, CHR 0x0A, CHR 0x0B, CHR 0x0C, CHR 0x0D})"

definition rstrip :: "string \<Rightarrow> string" where
  "rstrip s = rev (dropWhile is_space (rev s))"

fun split_lines :: "string \<Rightarrow> string list" where
  "split_lines [] = [] # []"
| "split_lines (c # cs) =
     (if c = CHR 0x0A then [] # split_lines cs
      else (case split_lines cs of [] \<Rightarrow> [c] # [] | l # ls \<Rightarrow> (c # l) # ls))"

fun join_lines :: "string list \<Rightarrow> string" where
  "join_lines [] = []"
| "join_lines [l] = l"
| "join_lines (l # ls) = l @ [CHR 0x0A] @ join_lines ls"

definition indent_of :: "string \<Rightarrow> nat" where
  "indent_of l = length (takeWhile is_space l)"

text \<open>
  Modelled from the spec: the re-indentation rule of section 4.4. The fragment is
  trimmed: the white space before its first text, up to the start of that text's line,
  and the white space after its last text are dropped. \<open>k\<close> is the indentation of the
  first line. Every non-empty line is shifted by replacing \<open>k\<close> characters of its
  indentation (or all of it, when it has fewer) by \<open>indent_prefix\<close>, so that the first
  line's indentation becomes \<open>indent_prefix\<close> and the lines keep their indentation
  relative to it.
\<close>

definition reindent :: "string \<Rightarrow> string \<Rightarrow> string" where
  "reindent prefix fragment_text =
     (let lead = takeWhile is_space fragment_text;
          k = length (takeWhile (\<lambda>c. c \<noteq> CHR 0x0A) (rev lead));
          ls = split_lines (rstrip (drop (length lead - k) fragment_text))
      in join_lines (map (\<lambda>l. if l = [] then l else prefix @ drop (min k (indent_of l)) l) ls))"

text \<open>
  Modelled from the spec: the Patch Applier \<open>apply(original_text, plan, fragment_text)\<close>
  of section 4.4. The indentation of the target construct is passed along with the
  plan; a Replace plan without a span is refused.
\<close>

definition apply_plan :: "string \<Rightarrow> ReplacementPlan \<Rightarrow> string \<Rightarrow> string \<Rightarrow> PatchResult option" where
  "apply_plan original_text pl fragment_text prefix =
     (case plan_operation pl of
        Replace \<Rightarrow>
          (case target_span pl of
             None \<Rightarrow> None
           | Some sp \<Rightarrow>
               Some \<lparr>patch_content = take (start_offset sp) original_text
                                       @ reindent prefix fragment_text
                                       @ drop (end_offset sp) original_text,
                     patch_operation = Replace,
                     patch_target_name = plan_target_name pl,
                     original_excerpt = Some (take (end_offset sp - start_offset sp)
                                                  (drop (start_offset sp) original_text))\<rparr>)
      | Append \<Rightarrow>
          Some \<lparr>patch_content = original_text
                                  @ (if original_text \<noteq> [] \<and> last original_text = CHR 0x0A
                                     then [] else [CHR 0x0A])
                                  @ [CHR 0x0A] @ fragment_text,
                patch_operation = Append,
                patch_target_name = plan_target_name pl,
                original_excerpt = None\<rparr>)"

text \<open>
  Modelled from the spec: the contract of the Construct Locator (sections 3 and 4.1),
  backend code as well, for its output on a text: every span lies inside the text, the
  constructs come in ascending order and their spans do not overlap.
\<close>

definition span_in :: "string \<Rightarrow> Construct \<Rightarrow> bool" where
  "span_in text c =
     (start_offset (span c) \<le> end_offset (span c) \<and> end_offset (span c) \<le> length text)"

fun located :: "string \<Rightarrow> Construct list \<Rightarrow> bool" where
  "located text [] = True"
| "located text [c] = span_in text c"
| "located text (c # d # cs) =
     (span_in text c \<and> end_offset (span c) \<le> start_offset (span d) \<and> located text (d # cs))"

text \<open>Modelled from the spec: the bytes of a text in the half-open range of a span.\<close>

definition span_text :: "string \<Rightarrow> SourceSpan \<Rightarrow> string" where
  "span_text text sp = take (end_offset sp - start_offset sp) (drop (start_offset sp) text)"


section \<open>Example inputs\<close>

definition demo_props :: props where
  "demo_props = \<lparr>owner = str ''octo'', repo = str ''site'', filePath = str ''src/app.py'',
                  branch = None, accessToken = str ''t'', language = str ''python'',
                  onSaveSuccess = None\<rparr>"

definition demo_editor :: editor where
  "demo_editor = \<lparr>content = str ''x = 2'', originalContent = str ''x = 1'', sha = str ''a1'',
                   isSaving = False, hasUnsavedChanges = True, showMagicPaste = False,
                   magicPasteCode = [], magicPasteResult = None, isProcessingMagic = False,
                   hasLocalBackup = True,
                   localStorage = [backupKey demo_props \<mapsto> str ''x = 2'']\<rparr>"

definition safe_scan :: ScanResponse where
  "safe_scan = \<lparr>is_safe = True, secrets_found = 0, alerts = []\<rparr>"

definition valid_syntax :: SyntaxValidateResponse where
  "valid_syntax = \<lparr>is_valid = True, error_message = None, error_line = None, error_column = None\<rparr>"

definition invalid_syntax :: SyntaxValidateResponse where
  "invalid_syntax = \<lparr>is_valid = False, error_message = Some (str ''invalid syntax''),
                      error_line = Some 1, error_column = Some 3\<rparr>"

definition accepted :: CommitResponse where
  "accepted = \<lparr>success = True, commit_sha = Some (str ''0123456789''),
                file_sha = Some (str ''b2''), message = str ''ok''\<rparr>"



definition conflict_body :: error_body where
  "conflict_body = \<lparr>detail = Some (JsString (str ''Conflict: file changed on server'')),
                     error = None\<rparr>"

definition blank_paste :: editor where
  "blank_paste = demo_editor\<lparr>showMagicPaste := True, magicPasteCode := [0x20, 0x0A, 0x09, 0xA0]\<rparr>"

definition replaced :: SmartReplaceResponse where
  "replaced = \<lparr>sr_success = True, updated_content = str ''x = 3'', operation = str ''replaced'',
                target_name = Some (str ''f''), sr_message = str ''Replaced f'',
                sr_diff_info = None\<rparr>"

definition pending_paste :: editor where
  "pending_paste = demo_editor\<lparr>showMagicPaste := True, magicPasteCode := str ''x = 3'',
                                magicPasteResult := Some replaced\<rparr>"

definition add_file :: string where
  "add_file = ''def add(a, b):\<newline>    return a + b\<newline>''"

definition add_fragment :: string where
  "add_fragment = ''def add(a, b, c):\<newline>    return a + b + c\<newline>''"

definition add_span :: SourceSpan where
  "add_span = \<lparr>start_offset = 0, end_offset = 31, start_line = 1, end_line = 2\<rparr>"

definition add_plan :: ReplacementPlan where
  "add_plan = \<lparr>plan_operation = Replace, target_span = Some add_span,
                 plan_target_name = Some ''add''\<rparr>"

definition twice_file :: string where
  "twice_file = ''def f():\<newline>    return 1\<newline>\<newline>def f():\<newline>    return 2\<newline>''"

definition twice_constructs :: "Construct list" where
  "twice_constructs =
     [\<lparr>name = ''f'', kind = Function,
       span = \<lparr>start_offset = 0, end_offset = 21, start_line = 1, end_line = 2\<rparr>,
       indent_prefix = ''''\<rparr>,
      \<lparr>name = ''f'', kind = Function,
       span = \<lparr>start_offset = 23, end_offset = 44, start_line = 4, end_line = 5\<rparr>,
       indent_prefix = ''''\<rparr>]"

definition f_fragment :: Fragment where
  "f_fragment = \<lparr>raw_text = ''def f():\<newline>    return 3\<newline>'', declared_name = Some ''f'',
                  fragment_kind = Some Function\<rparr>"


section \<open>Safe Push\<close>

subsection \<open>The paths of a Safe Push attempt\<close>

lemma push_scan_throws:
  "request (scanReply env) = Throws e \<Longrightarrow>
   handleSafePush p env s =
     \<lparr>final = s\<lparr>isSaving := False\<rparr>, calls = [scanCall p s],
      toasts = [ToastScanning, pushCatch e], notified = False\<rparr>"
  by (simp add: handleSafePush_def)

lemma push_unsafe:
  "request (scanReply env) = Returns r \<Longrightarrow> \<not> is_safe r \<Longrightarrow>
   handleSafePush p env s =
     \<lparr>final = s\<lparr>isSaving := False\<rparr>, calls = [scanCall p s],
      toasts = [ToastScanning, ToastSecretsDetected (secrets_found r)], notified = False\<rparr>"
  by (simp add: handleSafePush_def)

lemma push_syntax_throws:
  "request (scanReply env) = Returns r \<Longrightarrow> is_safe r \<Longrightarrow>
   request (syntaxReply env) = Throws e \<Longrightarrow>
   handleSafePush p env s =
     \<lparr>final = s\<lparr>isSaving := False\<rparr>, calls = [scanCall p s, syntaxCall p s],
      toasts = [ToastScanning, ToastValidating, pushCatch e], notified = False\<rparr>"
  by (simp add: handleSafePush_def)

lemma push_invalid:
  "request (scanReply env) = Returns r \<Longrightarrow> is_safe r \<Longrightarrow>
   request (syntaxReply env) = Returns v \<Longrightarrow> \<not> is_valid v \<Longrightarrow>
   handleSafePush p env s =
     \<lparr>final = s\<lparr>isSaving := False\<rparr>, calls = [scanCall p s, syntaxCall p s],
      toasts = [ToastScanning, ToastValidating,
                ToastSyntaxError (error_line v) (error_message v)],
      notified = False\<rparr>"
  by (simp add: handleSafePush_def)

lemma push_commit_throws:
  "request (scanReply env) = Returns r \<Longrightarrow> is_safe r \<Longrightarrow>
   request (syntaxReply env) = Returns v \<Longrightarrow> is_valid v \<Longrightarrow>
   request (commitReply env) = Throws e \<Longrightarrow>
   handleSafePush p env s =
     \<lparr>final = s\<lparr>isSaving := False\<rparr>,
      calls = [scanCall p s, syntaxCall p s, commitCall p s],
      toasts = [ToastScanning, ToastValidating, ToastPushing, pushCatch e],
      notified = False\<rparr>"
  by (simp add: handleSafePush_def)

lemma push_refused:
  "request (scanReply env) = Returns r \<Longrightarrow> is_safe r \<Longrightarrow>
   request (syntaxReply env) = Returns v \<Longrightarrow> is_valid v \<Longrightarrow>
   request (commitReply env) = Returns c \<Longrightarrow> \<not> success c \<Longrightarrow>
   handleSafePush p env s =
     \<lparr>final = s\<lparr>isSaving := False\<rparr>,
      calls = [scanCall p s, syntaxCall p s, commitCall p s],
      toasts = [ToastScanning, ToastValidating, ToastPushing], notified = False\<rparr>"
  by (simp add: handleSafePush_def)

lemma push_committed:
  "request (scanReply env) = Returns r \<Longrightarrow> is_safe r \<Longrightarrow>
   request (syntaxReply env) = Returns v \<Longrightarrow> is_valid v \<Longrightarrow>
   request (commitReply env) = Returns c \<Longrightarrow> success c \<Longrightarrow>
   handleSafePush p env s =
     pushCommitted p s [scanCall p s, syntaxCall p s, commitCall p s]
       [ToastScanning, ToastValidating, ToastPushing] c"
  by (simp add: handleSafePush_def)

lemma pushCommitted_calls: "calls (pushCommitted p s cs ts c) = cs"
  by (simp add: pushCommitted_def Let_def split: option.split completion.split)

lemma pushCommitted_final:
  "final (pushCommitted p s cs ts c) =
     s\<lparr>sha := or_else (file_sha c) (sha s),
       originalContent := content s,
       hasUnsavedChanges := False,
       localStorage := (localStorage s)(backupKey p := None),
       isSaving := False\<rparr>"
  by (simp add: pushCommitted_def Let_def split: option.split completion.split)

lemma pushCatch_cases: "pushCatch e = ToastMergeConflict \<or> pushCatch e = ToastPushFailed (err_message e)"
  by (simp add: pushCatch_def Let_def)

text \<open>The requests of an attempt are an initial part of scan, validate, commit.\<close>

lemma push_calls:
  "calls (handleSafePush p env s) =
     (if \<exists>r. request (scanReply env) = Returns r \<and> is_safe r
      then if \<exists>v. request (syntaxReply env) = Returns v \<and> is_valid v
           then [scanCall p s, syntaxCall p s, commitCall p s]
           else [scanCall p s, syntaxCall p s]
      else [scanCall p s])"
proof (cases "request (scanReply env)")
  case (Throws e)
  then show ?thesis by (simp add: push_scan_throws)
next
  case scan: (Returns r)
  show ?thesis
  proof (cases "is_safe r")
    case False
    with scan show ?thesis by (simp add: push_unsafe)
  next
    case safe: True
    show ?thesis
    proof (cases "request (syntaxReply env)")
      case (Throws e)
      with scan safe show ?thesis by (simp add: push_syntax_throws)
    next
      case syn: (Returns v)
      show ?thesis
      proof (cases "is_valid v")
        case False
        with scan safe syn show ?thesis by (simp add: push_invalid)
      next
        case valid: True
        show ?thesis
        proof (cases "request (commitReply env)")
          case (Throws e)
          with scan safe syn valid show ?thesis by (simp add: push_commit_throws)
        next
          case com: (Returns c)
          with scan safe syn valid show ?thesis
            by (cases "success c") (simp_all add: push_refused push_committed pushCommitted_calls)
        qed
      qed
    qed
  qed
qed

text \<open>
  Claim C1. When the secret scan answers \<open>is_safe = false\<close>, the attempt sends the scan
  request and nothing else: no syntax validation, no commit. The count \<open>n\<close> of secrets
  and the alerts \<open>as\<close> are arbitrary, so only the flag decides.
\<close>

theorem unsafe_scan_blocks_push:
  assumes "scanReply env = OkResponse (Inr \<lparr>is_safe = False, secrets_found = n, alerts = as\<rparr>)"
  shows "calls (handleSafePush p env s) = [ScanSecrets (content s) (filePath p)]
       \<and> (\<forall>c l f. ValidateSyntax c l f \<notin> set (calls (handleSafePush p env s)))
       \<and> (\<forall>req. CommitFile req \<notin> set (calls (handleSafePush p env s)))
       \<and> toasts (handleSafePush p env s) = [ToastScanning, ToastSecretsDetected n]"
  using assms by (simp add: push_unsafe scanCall_def)

theorem unsafe_scan_blocks_push_witness:
  "calls (handleSafePush demo_props
            \<lparr>scanReply = OkResponse (Inr \<lparr>is_safe = False, secrets_found = 0, alerts = []\<rparr>),
             syntaxReply = OkResponse (Inr valid_syntax),
             commitReply = OkResponse (Inr accepted)\<rparr> demo_editor)
     = [ScanSecrets (str ''x = 2'') (str ''src/app.py'')]"
  using unsafe_scan_blocks_push [where n = 0 and as = "[]" and p = demo_props and s = demo_editor
      and env = "\<lparr>scanReply = OkResponse (Inr \<lparr>is_safe = False, secrets_found = 0, alerts = []\<rparr>),
             syntaxReply = OkResponse (Inr valid_syntax),
             commitReply = OkResponse (Inr accepted)\<rparr>"]
  by (simp add: demo_props_def demo_editor_def)



text \<open>
  Claim C5. A commit that the backend refuses with status 409 ends the attempt in the
  \<open>catch\<close> block: the last toast is the merge-conflict toast when the error message
  contains "Conflict" or "409", and the push-failed toast with that message otherwise.
  Either way it differs from the toast of every attempt that the syntax validator
  rejected, and no syntax-error toast is shown.
\<close>

theorem conflict_distinct_from_syntax_rejection:
  assumes "request (scanReply envA) = Returns ra" and "is_safe ra"
    and "request (syntaxReply envA) = Returns va" and "is_valid va"
    and "commitReply envA = ErrResponse 409 b"
    and "request (scanReply envB) = Returns rb" and "is_safe rb"
    and "request (syntaxReply envB) = Returns vb" and "\<not> is_valid vb"
  shows "last (toasts (handleSafePush p envA s)) = pushCatch (ApiError 409 (error_text b))
       \<and> (last (toasts (handleSafePush p envA s)) = ToastMergeConflict
          \<or> last (toasts (handleSafePush p envA s)) = ToastPushFailed (error_text b))
       \<and> last (toasts (handleSafePush p' envB s')) = ToastSyntaxError (error_line vb) (error_message vb)
       \<and> last (toasts (handleSafePush p envA s)) \<noteq> last (toasts (handleSafePush p' envB s'))
       \<and> (\<forall>l m. ToastSyntaxError l m \<notin> set (toasts (handleSafePush p envA s)))"
proof -
  have A: "toasts (handleSafePush p envA s) =
             [ToastScanning, ToastValidating, ToastPushing, pushCatch (ApiError 409 (error_text b))]"
    using assms(1-5) by (simp add: push_commit_throws)
  have B: "toasts (handleSafePush p' envB s') =
             [ToastScanning, ToastValidating, ToastSyntaxError (error_line vb) (error_message vb)]"
    using assms(6-9) by (simp add: push_invalid)
  have C: "pushCatch (ApiError 409 (error_text b)) = ToastMergeConflict
         \<or> pushCatch (ApiError 409 (error_text b)) = ToastPushFailed (error_text b)"
    using pushCatch_cases [of "ApiError 409 (error_text b)"] by simp
  from A B C show ?thesis by auto
qed

theorem conflict_distinct_from_syntax_rejection_witness:
  "last (toasts (handleSafePush demo_props
            \<lparr>scanReply = OkResponse (Inr safe_scan),
             syntaxReply = OkResponse (Inr valid_syntax),
             commitReply = ErrResponse 409 (Some conflict_body)\<rparr> demo_editor))
     = ToastMergeConflict
   \<and> last (toasts (handleSafePush demo_props
            \<lparr>scanReply = OkResponse (Inr safe_scan),
             syntaxReply = OkResponse (Inr invalid_syntax),
             commitReply = OkResponse (Inr accepted)\<rparr> demo_editor))
     = ToastSyntaxError (Some 1) (Some (str ''invalid syntax''))"
  using conflict_distinct_from_syntax_rejection
    [where envA = "\<lparr>scanReply = OkResponse (Inr safe_scan),
             syntaxReply = OkResponse (Inr valid_syntax),
             commitReply = ErrResponse 409 (Some conflict_body)\<rparr>"
       and envB = "\<lparr>scanReply = OkResponse (Inr safe_scan),
             syntaxReply = OkResponse (Inr invalid_syntax),
             commitReply = OkResponse (Inr accepted)\<rparr>"
       and ra = safe_scan and rb = safe_scan and va = valid_syntax and vb = invalid_syntax
       and b = "Some conflict_body" and p = demo_props and p' = demo_props
       and s = demo_editor and s' = demo_editor]
  by (simp add: safe_scan_def valid_syntax_def invalid_syntax_def conflict_body_def
        error_text_def pushCatch_def str_def)

text \<open>
  An accepted commit whose answer carries no \<open>file_sha\<close>, or an empty one, keeps the
  fingerprint the editor had (\<open>commitResult.file_sha || sha\<close>).
\<close>

lemma accepted_without_file_sha:
  assumes "request (scanReply env) = Returns r" and "is_safe r"
    and "request (syntaxReply env) = Returns v" and "is_valid v"
    and "request (commitReply env) = Returns c" and "success c"
    and "file_sha c = None \<or> file_sha c = Some []"
  shows "sha (final (handleSafePush p env s)) = sha s"
  using assms by (auto simp add: push_committed pushCommitted_final or_else_def)

text \<open>
  Claim C6. When the backend accepts the commit and answers with a new fingerprint
  \<open>f\<close>, the editor stores \<open>f\<close> as \<open>sha\<close>, and the commit request of the next attempt
  for the file carries \<open>expected_sha = f\<close>.
\<close>

theorem accepted_commit_stores_fingerprint:
  assumes "request (scanReply env) = Returns r" and "is_safe r"
    and "request (syntaxReply env) = Returns v" and "is_valid v"
    and "commitReply env = OkResponse (Inr c)" and "success c"
    and "file_sha c = Some f" and "f \<noteq> []"
    and "request (scanReply env') = Returns r'" and "is_safe r'"
    and "request (syntaxReply env') = Returns v'" and "is_valid v'"
  shows "sha (final (handleSafePush p env s)) = f
       \<and> (\<exists>req. calls (handleSafePush p env' (final (handleSafePush p env s)))
                  = [ScanSecrets (content s) (filePath p),
                     ValidateSyntax (content s) (language p) (filePath p),
                     CommitFile req]
                \<and> cr_expected_sha req = Some f)"
proof -
  let ?s' = "final (handleSafePush p env s)"
  have fin: "?s' = s\<lparr>sha := f, originalContent := content s, hasUnsavedChanges := False,
                      localStorage := (localStorage s)(backupKey p := None), isSaving := False\<rparr>"
    using assms(1-8) by (simp add: push_committed pushCommitted_final or_else_def)
  have "calls (handleSafePush p env' ?s') = [scanCall p ?s', syntaxCall p ?s', commitCall p ?s']"
    using assms(9-12) by (auto simp add: push_calls)
  with fin show ?thesis
    by (simp add: scanCall_def syntaxCall_def commitCall_def)
qed

theorem accepted_commit_stores_fingerprint_witness:
  "sha (final (handleSafePush demo_props
            \<lparr>scanReply = OkResponse (Inr safe_scan),
             syntaxReply = OkResponse (Inr valid_syntax),
             commitReply = OkResponse (Inr accepted)\<rparr> demo_editor)) = str ''b2''
   \<and> success accepted \<and> file_sha accepted = Some (str ''b2'') \<and> str ''b2'' \<noteq> []"
  using accepted_commit_stores_fingerprint
    [where env = "\<lparr>scanReply = OkResponse (Inr safe_scan),
             syntaxReply = OkResponse (Inr valid_syntax),
             commitReply = OkResponse (Inr accepted)\<rparr>"
       and env' = "\<lparr>scanReply = OkResponse (Inr safe_scan),
             syntaxReply = OkResponse (Inr valid_syntax),
             commitReply = OkResponse (Inr accepted)\<rparr>"
       and r = safe_scan and r' = safe_scan and v = valid_syntax and v' = valid_syntax
       and c = accepted and f = "str ''b2''" and p = demo_props and s = demo_editor]
  by (simp add: safe_scan_def valid_syntax_def accepted_def str_def)

text \<open>
  Claim C7. An attempt rejected for a secret, for a syntax error or for a fingerprint
  mismatch (status 409) leaves the editor as it was, but for \<open>isSaving\<close> being reset:
  the fingerprint, the last-loaded content, the unsaved-changes flag and the local
  backup are unchanged, and \<open>onSaveSuccess\<close> is not called.
\<close>

theorem rejection_keeps_stored_state:
  assumes "(request (scanReply env) = Returns r \<and> \<not> is_safe r)
         \<or> (request (scanReply env) = Returns r \<and> is_safe r
            \<and> request (syntaxReply env) = Returns v \<and> \<not> is_valid v)
         \<or> (request (scanReply env) = Returns r \<and> is_safe r
            \<and> request (syntaxReply env) = Returns v \<and> is_valid v
            \<and> commitReply env = ErrResponse 409 b)"
  shows "final (handleSafePush p env s) = s\<lparr>isSaving := False\<rparr>
       \<and> sha (final (handleSafePush p env s)) = sha s
       \<and> originalContent (final (handleSafePush p env s)) = originalContent s
       \<and> hasUnsavedChanges (final (handleSafePush p env s)) = hasUnsavedChanges s
       \<and> localStorage (final (handleSafePush p env s)) = localStorage s
       \<and> hasLocalBackup (final (handleSafePush p env s)) = hasLocalBackup s
       \<and> content (final (handleSafePush p env s)) = content s
       \<and> \<not> notified (handleSafePush p env s)"
proof -
  have "handleSafePush p env s = \<lparr>final = s\<lparr>isSaving := False\<rparr>,
          calls = calls (handleSafePush p env s), toasts = toasts (handleSafePush p env s),
          notified = False\<rparr>"
    using assms
    by (elim disjE conjE) (simp_all add: push_unsafe push_invalid push_commit_throws)
  then have "final (handleSafePush p env s) = s\<lparr>isSaving := False\<rparr>"
    and "\<not> notified (handleSafePush p env s)"
    by (metis run.select_convs(1), metis run.select_convs(4))
  then show ?thesis by simp
qed

theorem rejection_keeps_stored_state_witness:
  "final (handleSafePush demo_props
            \<lparr>scanReply = OkResponse (Inr \<lparr>is_safe = False, secrets_found = 2, alerts = []\<rparr>),
             syntaxReply = OkResponse (Inr valid_syntax),
             commitReply = OkResponse (Inr accepted)\<rparr> demo_editor) = demo_editor
   \<and> final (handleSafePush demo_props
            \<lparr>scanReply = OkResponse (Inr safe_scan),
             syntaxReply = OkResponse (Inr invalid_syntax),
             commitReply = OkResponse (Inr accepted)\<rparr> demo_editor) = demo_editor
   \<and> final (handleSafePush demo_props
            \<lparr>scanReply = OkResponse (Inr safe_scan),
             syntaxReply = OkResponse (Inr valid_syntax),
             commitReply = ErrResponse 409 (Some conflict_body)\<rparr> demo_editor) = demo_editor"
  using rejection_keeps_stored_state
    [where env = "\<lparr>scanReply = OkResponse (Inr \<lparr>is_safe = False, secrets_found = 2, alerts = []\<rparr>),
             syntaxReply = OkResponse (Inr valid_syntax),
             commitReply = OkResponse (Inr accepted)\<rparr>"
       and r = "\<lparr>is_safe = False, secrets_found = 2, alerts = []\<rparr>"
       and p = demo_props and s = demo_editor]
    rejection_keeps_stored_state
    [where env = "\<lparr>scanReply = OkResponse (Inr safe_scan),
             syntaxReply = OkResponse (Inr invalid_syntax),
             commitReply = OkResponse (Inr accepted)\<rparr>"
       and r = safe_scan and v = invalid_syntax and p = demo_props and s = demo_editor]
    rejection_keeps_stored_state
    [where env = "\<lparr>scanReply = OkResponse (Inr safe_scan),
             syntaxReply = OkResponse (Inr valid_syntax),
             commitReply = ErrResponse 409 (Some conflict_body)\<rparr>"
       and r = safe_scan and v = valid_syntax and b = "Some conflict_body"
       and p = demo_props and s = demo_editor]
  by (simp add: safe_scan_def valid_syntax_def invalid_syntax_def demo_editor_def)


section \<open>Magic Paste\<close>

text \<open>\<open>trim\<close> leaves nothing exactly when every code unit is white space.\<close>

lemma trim_empty_iff: "trim s = [] \<longleftrightarrow> (\<forall>c\<in>set s. isWhiteSpace c)"
proof
  assume "\<forall>c\<in>set s. isWhiteSpace c"
  then show "trim s = []" by (auto simp add: trim_def dest: set_dropWhileD)
next
  assume t: "trim s = []"
  show "\<forall>c\<in>set s. isWhiteSpace c"
  proof (rule ccontr)
    assume "\<not> (\<forall>c\<in>set s. isWhiteSpace c)"
    then have ne: "dropWhile isWhiteSpace s \<noteq> []" by simp
    then have "\<not> isWhiteSpace (hd (dropWhile isWhiteSpace s))" by (rule hd_dropWhile)
    moreover have "hd (dropWhile isWhiteSpace s) \<in> set (rev (dropWhile isWhiteSpace s))"
      using ne by simp
    ultimately have "dropWhile isWhiteSpace (rev (dropWhile isWhiteSpace s)) \<noteq> []"
      by (metis dropWhile_eq_Nil_conv)
    with t show False by (simp add: trim_def)
  qed
qed

text \<open>
  Claim C9. When the pasted text is empty or all white space, \<open>handleMagicPaste\<close>
  shows its error toast and returns: no request is sent and the editor state,
  its content included, is unchanged; the "Apply Magic" button is disabled as well.
\<close>

theorem blank_paste_sends_nothing:
  assumes "\<forall>c\<in>set (magicPasteCode s). isWhiteSpace c"
  shows "handleMagicPaste p reply s =
           \<lparr>final = s, calls = [], toasts = [ToastPasteFirst], notified = False\<rparr>
       \<and> applyMagicDisabled s"
  using assms by (simp add: handleMagicPaste_def applyMagicDisabled_def trim_empty_iff)

theorem blank_paste_sends_nothing_witness:
  "handleMagicPaste demo_props (OkResponse (Inr replaced)) blank_paste =
        \<lparr>final = blank_paste, calls = [], toasts = [ToastPasteFirst], notified = False\<rparr>
   \<and> magicPasteCode blank_paste = [0x20, 0x0A, 0x09, 0xA0]"
  using blank_paste_sends_nothing [where s = blank_paste and p = demo_props
      and reply = "OkResponse (Inr replaced)"]
  by (simp add: blank_paste_def isWhiteSpace_def)

text \<open>Conversely, every smart-replace request carries a snippet that is not blank.\<close>

lemma smartReplace_snippet_not_blank:
  "SmartReplace req \<in> set (calls (handleMagicPaste p reply s)) \<Longrightarrow> trim (sr_new_snippet req) \<noteq> []"
  by (auto simp add: handleMagicPaste_def smartReplaceCall_def split: if_splits completion.splits)

text \<open>
  Claim C10. Requesting a smart replace never changes the editor content. With a result
  \<open>r\<close> pending, Reject only clears the result and leaves the content as it was;
  Accept sets the content to \<open>updated_content r\<close> and the unsaved-changes flag, closes
  the dialog, and sends no request and touches neither the fingerprint, the last-loaded
  content nor the local backup.
\<close>

theorem magic_paste_needs_acceptance:
  assumes "magicPasteResult s = Some r"
  shows "content (final (handleMagicPaste p reply s0)) = content s0
       \<and> final (rejectMagicPaste s) = s\<lparr>magicPasteResult := None\<rparr>
       \<and> content (final (rejectMagicPaste s)) = content s
       \<and> calls (rejectMagicPaste s) = []
       \<and> final (acceptMagicPaste s) =
            s\<lparr>content := updated_content r, hasUnsavedChanges := True,
              showMagicPaste := False, magicPasteCode := [], magicPasteResult := None\<rparr>
       \<and> content (final (acceptMagicPaste s)) = updated_content r
       \<and> hasUnsavedChanges (final (acceptMagicPaste s))
       \<and> calls (acceptMagicPaste s) = []
       \<and> sha (final (acceptMagicPaste s)) = sha s
       \<and> originalContent (final (acceptMagicPaste s)) = originalContent s
       \<and> localStorage (final (acceptMagicPaste s)) = localStorage s
       \<and> hasLocalBackup (final (acceptMagicPaste s)) = hasLocalBackup s"
proof -
  have "content (final (handleMagicPaste p reply s0)) = content s0"
    by (simp add: handleMagicPaste_def split: completion.split)
  with assms show ?thesis
    by (simp add: acceptMagicPaste_def rejectMagicPaste_def)
qed

theorem magic_paste_needs_acceptance_witness:
  "magicPasteResult pending_paste = Some replaced
   \<and> content (final (rejectMagicPaste pending_paste)) = str ''x = 2''
   \<and> content (final (acceptMagicPaste pending_paste)) = str ''x = 3''
   \<and> hasUnsavedChanges (final (acceptMagicPaste pending_paste))
   \<and> sha (final (acceptMagicPaste pending_paste)) = str ''a1''"
  using magic_paste_needs_acceptance [where s = pending_paste and r = replaced
      and p = demo_props and s0 = demo_editor and reply = "OkResponse (Inr replaced)"]
  by (simp add: pending_paste_def demo_editor_def replaced_def)

section \<open>Failures of the API client\<close>


text \<open>
  A 409 on commit whose body is \<open>null\<close> is thrown as the engine's \<open>TypeError\<close>; the
  attempt ends in the \<open>catch\<close> block all the same and leaves the state as it was.
\<close>

lemma conflict_with_null_body:
  assumes "request (scanReply env) = Returns r" and "is_safe r"
    and "request (syntaxReply env) = Returns v" and "is_valid v"
    and "commitReply env = ErrResponseNull 409 m"
  shows "final (handleSafePush p env s) = s\<lparr>isSaving := False\<rparr>
       \<and> toasts (handleSafePush p env s)
           = [ToastScanning, ToastValidating, ToastPushing, pushCatch (JsError m)]"
  using assms by (simp add: push_commit_throws)




section \<open>Planner and patch applier\<close>

text \<open>A span that ends inside a kept prefix of the text reads the same bytes.\<close>

lemma span_text_before:
  assumes "start_offset sp \<le> end_offset sp" and "end_offset sp \<le> k" and "k \<le> length text"
  shows "span_text (take k text @ ys) sp = span_text text sp"
proof -
  have "drop (start_offset sp) (take k text @ ys) = drop (start_offset sp) (take k text) @ ys"
    using assms by simp
  moreover have "end_offset sp - start_offset sp \<le> length (drop (start_offset sp) (take k text))"
    using assms by simp
  ultimately have "span_text (take k text @ ys) sp
      = take (end_offset sp - start_offset sp) (drop (start_offset sp) (take k text))"
    by (simp add: span_text_def)
  also have "\<dots> = take (end_offset sp - start_offset sp) (take (k - start_offset sp) (drop (start_offset sp) text))"
    by (simp add: drop_take)
  also have "\<dots> = span_text text sp"
    using assms by (simp add: span_text_def min_def)
  finally show ?thesis .
qed

text \<open>Located constructs follow one another, each inside the text.\<close>

lemma located_sorted:
  "located src cs \<Longrightarrow>
     sorted_wrt (\<lambda>c d. end_offset (span c) \<le> start_offset (span d)) cs
     \<and> (\<forall>c\<in>set cs. span_in src c)"
proof (induction src cs rule: located.induct)
  case (1 src)
  then show ?case by simp
next
  case (2 src c)
  then show ?case by simp
next
  case (3 src c d cs)
  then have d: "span_in src d" by simp
  from 3 have cd: "end_offset (span c) \<le> start_offset (span d)" by simp
  from 3 have rest: "\<forall>x\<in>set cs. end_offset (span d) \<le> start_offset (span x)" by simp
  have "\<forall>x\<in>set cs. end_offset (span c) \<le> start_offset (span x)"
  proof
    fix x assume "x \<in> set cs"
    with rest have "end_offset (span d) \<le> start_offset (span x)" by simp
    with cd d show "end_offset (span c) \<le> start_offset (span x)"
      by (simp add: span_in_def)
  qed
  with 3 cd show ?case by simp
qed

lemma matches_before_last:
  assumes "located src cs" and "ms = matches cs n k" and "c \<in> set (butlast ms)"
  shows "start_offset (span c) \<le> end_offset (span c)
       \<and> end_offset (span c) \<le> start_offset (span (last ms))"
proof -
  let ?R = "\<lambda>c d. end_offset (span c) \<le> start_offset (span d)"
  from assms(3) have ne: "ms \<noteq> []" by auto
  have "sorted_wrt ?R ms"
    using located_sorted [OF assms(1)] assms(2) by (simp add: matches_def sorted_wrt_filter)
  then have "sorted_wrt ?R (butlast ms @ [last ms])" using ne by simp
  then have "?R c (last ms)" using assms(3) by (simp add: sorted_wrt_append)
  moreover have "c \<in> set cs"
    using assms(2,3) by (auto simp add: matches_def dest: in_set_butlastD)
  then have "span_in src c" using located_sorted [OF assms(1)] by simp
  ultimately show ?thesis by (simp add: span_in_def)
qed

lemma last_match_located:
  assumes "located src cs" and "ms = matches cs n k" and "ms \<noteq> []"
  shows "span_in src (last ms)"
proof -
  have "last ms \<in> set ms" using assms(3) by simp
  then have "last ms \<in> set cs" using assms(2) by (simp add: matches_def)
  then show ?thesis using located_sorted [OF assms(1)] by simp
qed

text \<open>
  Claim C3. For a Replace plan whose span lies in the original text, the patch applier
  returns the original prefix before the span, then the re-indented fragment, then the
  original suffix from the span's end: the bytes before \<open>start_offset\<close> and from
  \<open>end_offset\<close> on are those of the original, and the excerpt is the removed range.
\<close>

theorem replace_keeps_outside_span:
  assumes "plan_operation pl = Replace" and "target_span pl = Some sp"
    and "start_offset sp \<le> end_offset sp" and "end_offset sp \<le> length original_text"
  shows "\<exists>res. apply_plan original_text pl fragment_text prefix = Some res
       \<and> patch_content res = take (start_offset sp) original_text
                               @ reindent prefix fragment_text
                               @ drop (end_offset sp) original_text
       \<and> take (start_offset sp) (patch_content res) = take (start_offset sp) original_text
       \<and> drop (start_offset sp + length (reindent prefix fragment_text)) (patch_content res)
           = drop (end_offset sp) original_text
       \<and> original_excerpt res = Some (span_text original_text sp)"
  using assms by (simp add: apply_plan_def span_text_def)

text \<open>
  Claim C4. When two or more located constructs match the fragment's name and kind,
  the planner returns a Replace plan for the span of the last match, whose start offset
  is the greatest among the matches, and applying the plan leaves the bytes in the span
  of every earlier match as they were.
\<close>

theorem duplicate_name_replaces_last:
  assumes "located original_text cs"
    and "declared_name fragment = Some n"
    and "ms = matches cs n (fragment_kind fragment)"
    and "2 \<le> length ms"
  shows "plan cs fragment = \<lparr>plan_operation = Replace, target_span = Some (span (last ms)),
                             plan_target_name = Some n\<rparr>
       \<and> (\<forall>c\<in>set ms. start_offset (span c) \<le> start_offset (span (last ms)))
       \<and> (\<exists>res. apply_plan original_text (plan cs fragment) fragment_text prefix = Some res
              \<and> (\<forall>c\<in>set (butlast ms). span_text (patch_content res) (span c)
                                           = span_text original_text (span c)))"
proof -
  from assms(4) have ne: "ms \<noteq> []" by auto
  then obtain m ms' where ms: "ms = m # ms'" by (cases ms) auto
  have pl: "plan cs fragment = \<lparr>plan_operation = Replace, target_span = Some (span (last ms)),
                                plan_target_name = Some n\<rparr>"
  proof -
    have "matches cs n (fragment_kind fragment) = m # ms'" using assms(3) ms by simp
    then show ?thesis using assms(2) ms by (simp add: plan_def Let_def del: last.simps)
  qed
  have before: "\<And>c. c \<in> set (butlast ms) \<Longrightarrow>
      start_offset (span c) \<le> end_offset (span c)
      \<and> end_offset (span c) \<le> start_offset (span (last ms))"
    using matches_before_last [OF assms(1) assms(3)] by simp
  have lst: "span_in original_text (last ms)"
    using last_match_located [OF assms(1) assms(3) ne] .
  have greatest: "\<forall>c\<in>set ms. start_offset (span c) \<le> start_offset (span (last ms))"
  proof
    fix c assume "c \<in> set ms"
    then have "c \<in> set (butlast ms @ [last ms])" using ne by simp
    then have "c \<in> set (butlast ms) \<or> c = last ms" by auto
    then show "start_offset (span c) \<le> start_offset (span (last ms))"
      using before [of c] by auto
  qed
  let ?res = "\<lparr>patch_content = take (start_offset (span (last ms))) original_text
                                  @ reindent prefix fragment_text
                                  @ drop (end_offset (span (last ms))) original_text,
                patch_operation = Replace,
                patch_target_name = Some n,
                original_excerpt = Some (take (end_offset (span (last ms)) - start_offset (span (last ms)))
                                          (drop (start_offset (span (last ms))) original_text))\<rparr>"
  have ap: "apply_plan original_text (plan cs fragment) fragment_text prefix = Some ?res"
    by (simp add: pl apply_plan_def)
  have kept: "\<forall>c\<in>set (butlast ms). span_text (patch_content ?res) (span c)
                                      = span_text original_text (span c)"
  proof
    fix c assume c: "c \<in> set (butlast ms)"
    have "start_offset (span (last ms)) \<le> length original_text"
      using lst by (simp add: span_in_def)
    with before [OF c] show "span_text (patch_content ?res) (span c) = span_text original_text (span c)"
      by (simp add: span_text_before)
  qed
  from pl greatest ap kept show ?thesis by blast
qed

theorem replace_keeps_outside_span_witness:
  "plan_operation add_plan = Replace \<and> target_span add_plan = Some add_span
   \<and> start_offset add_span \<le> end_offset add_span \<and> end_offset add_span \<le> length add_file
   \<and> map_option patch_content (apply_plan add_file add_plan add_fragment [])
       = Some ''def add(a, b, c):\<newline>    return a + b + c\<newline>''
   \<and> drop (end_offset add_span) add_file = ''\<newline>''"
proof -
  have h: "plan_operation add_plan = Replace" "target_span add_plan = Some add_span"
    "start_offset add_span \<le> end_offset add_span" "end_offset add_span \<le> length add_file"
    by (simp_all add: add_plan_def add_span_def add_file_def)
  have r: "reindent [] add_fragment = ''def add(a, b, c):\<newline>    return a + b + c''"
    by code_simp
  have d: "drop (end_offset add_span) add_file = ''\<newline>''"
    by (simp add: add_span_def add_file_def)
  from replace_keeps_outside_span [OF h, of add_fragment "[]"] h r d show ?thesis
    by (auto simp add: add_span_def)
qed

theorem duplicate_name_replaces_last_witness:
  "located twice_file twice_constructs
   \<and> declared_name f_fragment = Some ''f''
   \<and> length (matches twice_constructs ''f'' (fragment_kind f_fragment)) = 2
   \<and> plan twice_constructs f_fragment
       = \<lparr>plan_operation = Replace,
          target_span = Some \<lparr>start_offset = 23, end_offset = 44, start_line = 4, end_line = 5\<rparr>,
          plan_target_name = Some ''f''\<rparr>
   \<and> map_option patch_content
         (apply_plan twice_file (plan twice_constructs f_fragment) (raw_text f_fragment) [])
       = Some ''def f():\<newline>    return 1\<newline>\<newline>def f():\<newline>    return 3\<newline>''"
proof -
  have e: "map_option patch_content
         (apply_plan twice_file (plan twice_constructs f_fragment) (raw_text f_fragment) [])
       = Some ''def f():\<newline>    return 1\<newline>\<newline>def f():\<newline>    return 3\<newline>''"
    by code_simp
  have m: "matches twice_constructs ''f'' (fragment_kind f_fragment) = twice_constructs"
    by (simp add: matches_def twice_constructs_def f_fragment_def)
  have h: "located twice_file twice_constructs" "declared_name f_fragment = Some ''f''"
    "twice_constructs = matches twice_constructs ''f'' (fragment_kind f_fragment)"
    "2 \<le> length twice_constructs"
    using m by (simp_all add: twice_constructs_def twice_file_def f_fragment_def span_in_def)
  from duplicate_name_replaces_last [OF h, of "raw_text f_fragment" "[]"] h m e show ?thesis
    by (simp add: twice_constructs_def)
qed

text \<open>The append scenario of section 8 of the specification.\<close>

lemma append_scenario:
  "map_option patch_content
     (apply_plan ''x = 1\<newline>''
        (plan [] \<lparr>raw_text = ''# just a comment'', declared_name = None, fragment_kind = None\<rparr>)
        ''# just a comment'' [])
   = Some ''x = 1\<newline>\<newline># just a comment''"
  by code_simp

text \<open>
  Re-indenting a method pasted with its own indentation to the same indentation gives
  the method back, and pasting a top-level definition into an indented place shifts
  every line alike.
\<close>

lemma reindent_keeps_relative_indentation:
  "reindent ''    '' ''    def f(self):\<newline>        return 1\<newline>''
     = ''    def f(self):\<newline>        return 1''
   \<and> reindent ''    '' ''\<newline>def f(self):\<newline>    return 1\<newline>''
     = ''    def f(self):\<newline>        return 1''"
  by code_simp

end
